theory Spec2Isabelle
  imports Complex_Main "HOL-Library.Option_ord" "HOL-Library.Product_Lexorder"
    "HOL-Library.Multiset"
begin

section \<open>The item store\<close>

text \<open>
  The enumerations of \<^verbatim>\<open>models.py\<close>. \<^verbatim>\<open>utils.py\<close> names the sort direction
  \<^verbatim>\<open>SortOrder\<close> (it comes through \<^verbatim>\<open>from schema import *\<close>), with the members
  \<^verbatim>\<open>asc\<close> and \<^verbatim>\<open>desc\<close> of \<^verbatim>\<open>models.Order\<close>.
\<close>

datatype ItemType = Comment | Job | Story | Poll | Pollopt

datatype SortBy = SortBy_score | SortBy_time

datatype SortOrder = Asc | Desc

text \<open>
  A row of the table \<^verbatim>\<open>items\<close>. Every column but the primary key is nullable, so it is
  an option. The column \<^verbatim>\<open>descendants\<close> is read by \<^verbatim>\<open>get_items\<close>
  (\<^verbatim>\<open>Item.descendants\<close>); the class that declares it is the one \<^verbatim>\<open>schema\<close> exports.
  \<^verbatim>\<open>by\<close> holds a user id (\<^verbatim>\<open>users.id\<close> is a string).
\<close>

record Item =
  item_id :: int
  item_time :: "int option"
  item_title :: "string option"
  item_url :: "string option"
  item_text :: "string option"
  item_score :: "int option"
  item_type :: "ItemType option"
  item_by :: "string option"
  item_descendants :: "int option"

text \<open>A row of the association table \<^verbatim>\<open>kids\<close>: three nullable integer columns.\<close>

record Kid =
  kid_item :: "int option"
  kid_kid :: "int option"
  kid_display_order :: "int option"

record store =
  items :: "Item list"
  kids :: "Kid list"

text \<open>
  What the Python raises, as values. \<^verbatim>\<open>TypeError\<close>: unpacking \<^verbatim>\<open>None\<close>;
  \<^verbatim>\<open>ValueError\<close>: \<^verbatim>\<open>min\<close> of an empty sequence, or unpacking too few values;
  \<^verbatim>\<open>UnboundLocalError\<close>: reading a local variable that no statement has assigned.
\<close>

datatype py_error = TypeError | ValueError | ZeroDivisionError | UnboundLocalError

text \<open>
  \<^verbatim>\<open>SELECT ... FROM items WHERE id = {story_id}\<close> followed by \<^verbatim>\<open>fetchone()\<close>:
  the first row with that id, or \<^verbatim>\<open>None\<close>.
\<close>

definition fetchone_by_id :: "store \<Rightarrow> int \<Rightarrow> Item option" where
  "fetchone_by_id db i = find (\<lambda>r. item_id r = i) (items db)"

section \<open>Strings\<close>

text \<open>
  Strings are lists of 8-bit characters; the model is exact on ASCII text.
  \<^verbatim>\<open>str.isspace\<close> holds of the ASCII codes 9 to 13, 28 to 31 and 32.
\<close>

definition isspace :: "char \<Rightarrow> bool" where
  "isspace c = (let n = (of_char c :: nat) in (9 \<le> n \<and> n \<le> 13) \<or> (28 \<le> n \<and> n \<le> 32))"

definition lower_char :: "char \<Rightarrow> char" where
  "lower_char c = (let n = (of_char c :: nat) in if 65 \<le> n \<and> n \<le> 90 then char_of (n + 32) else c)"

definition lower :: "string \<Rightarrow> string" where
  "lower s = map lower_char s"

text \<open>
  \<^verbatim>\<open>s.split()\<close> with no argument: the maximal runs of characters that are not white
  space, in order. \<open>cur\<close> is the run being read, reversed.
\<close>

fun split_from :: "string \<Rightarrow> string \<Rightarrow> string list" where
  "split_from cur [] = (if cur = [] then [] else [rev cur])"
| "split_from cur (c # cs) =
     (if isspace c then (if cur = [] then split_from [] cs else rev cur # split_from [] cs)
      else split_from (c # cur) cs)"

definition split :: "string \<Rightarrow> string list" where
  "split s = split_from [] s"


section \<open>Ranking\<close>

text \<open>
  Numbers: the stored scores and times are Python integers, the distances are the numbers
  of the provider's JSON answer. The model computes with exact rationals, in which the
  integers are embedded by \<open>of_int\<close>; the rounding of Python's binary floating point is
  not modelled.
\<close>

definition min_val :: "rat list \<Rightarrow> rat" where
  "min_val vs = fold min (tl vs) (hd vs)"

definition max_val :: "rat list \<Rightarrow> rat" where
  "max_val vs = fold max (tl vs) (hd vs)"

text \<open>
  \<^verbatim>\<open>normalize(values, reverse)\<close>. \<^verbatim>\<open>min\<close> raises on an empty sequence, and the first
  division raises when all the values are equal.
\<close>

definition normalize :: "rat list \<Rightarrow> bool \<Rightarrow> py_error + rat list" where
  "normalize vals reverse =
     (if vals = [] then Inl ValueError
      else if max_val vals - min_val vals = 0 then Inl ZeroDivisionError
      else
        let normalized_values = map (\<lambda>v. (v - min_val vals) / (max_val vals - min_val vals)) vals
        in Inr (if reverse then map (\<lambda>v. 1 - v) normalized_values else normalized_values))"

text \<open>
  The first loop of \<^verbatim>\<open>compute_rankings\<close>: one point lookup per candidate. A candidate
  with no row makes \<^verbatim>\<open>title, score, age = cursor.fetchone()\<close> raise; a row whose title
  is \<^verbatim>\<open>None\<close> is skipped; a missing score is 1 and a missing time is 0.
\<close>

type_synonym expanded_row = "int \<times> rat \<times> string \<times> int \<times> int"

fun expand :: "store \<Rightarrow> (int \<times> rat) list \<Rightarrow> py_error + expanded_row list" where
  "expand db [] = Inr []"
| "expand db ((story_id, distance) # rest) =
     (case fetchone_by_id db story_id of
        None \<Rightarrow> Inl TypeError
      | Some row \<Rightarrow>
          (case item_title row of
             None \<Rightarrow> expand db rest
           | Some title \<Rightarrow>
               (case expand db rest of
                  Inl e \<Rightarrow> Inl e
                | Inr expanded \<Rightarrow>
                    Inr ((story_id, distance, title,
                          (case item_score row of None \<Rightarrow> 1 | Some s \<Rightarrow> s),
                          (case item_time row of None \<Rightarrow> 0 | Some t \<Rightarrow> t)) # expanded))))"

text \<open>The keyword signal: the number of lower-cased words the query and the title share.\<close>

definition matches :: "string \<Rightarrow> string \<Rightarrow> nat" where
  "matches query title = card (set (map lower (split query)) \<inter> set (map lower (split title)))"

definition w1 :: rat where "w1 = 4 / 10"
definition w2 :: rat where "w2 = 4 / 10"
definition w3 :: rat where "w3 = 1 / 10"
definition w4 :: rat where "w4 = 1 / 10"

text \<open>
  The second loop: \<^verbatim>\<open>enumerate(expanded)\<close>, reading the three normalized vectors at the
  index of the candidate.
\<close>

definition score_rank ::
  "string \<Rightarrow> rat list \<Rightarrow> rat list \<Rightarrow> rat list \<Rightarrow> nat \<times> expanded_row \<Rightarrow> rat \<times> int" where
  "score_rank query normalized_scores normalized_distances normalized_ages ie =
     (case ie of (i, (story_id, distance, title, _, _)) \<Rightarrow>
        (w1 * normalized_scores ! i + w2 * normalized_distances ! i
           + w3 * normalized_ages ! i + w4 * of_nat (matches query title),
         story_id))"

text \<open>
  \<^verbatim>\<open>sorted(rankings, reverse=True)\<close> on tuples \<^verbatim>\<open>(score_rank, story_id)\<close>: tuples
  compare lexicographically, and two tuples that compare equal are the same value, so the
  descending sort is the reverse of the ascending one.
\<close>

definition sorted_reverse :: "(rat \<times> int) list \<Rightarrow> (rat \<times> int) list" where
  "sorted_reverse rankings = rev (sort rankings)"

text \<open>
  \<^verbatim>\<open>scores, ages, distances = zip(*[...])\<close> unpacks three tuples; with no candidate left
  \<^verbatim>\<open>zip()\<close> yields nothing and the unpacking raises \<^verbatim>\<open>ValueError\<close>.
\<close>

definition compute_rankings ::
  "store \<Rightarrow> string \<Rightarrow> (int \<times> rat) list \<Rightarrow> py_error + (rat \<times> int) list" where
  "compute_rankings db query results =
     (case expand db results of
        Inl e \<Rightarrow> Inl e
      | Inr expanded \<Rightarrow>
          if expanded = [] then Inl ValueError
          else
            let scores = map (\<lambda>(_, _, _, score, _). of_int score) expanded;
                ages = map (\<lambda>(_, _, _, _, age). of_int age) expanded;
                distances = map (\<lambda>(_, distance, _, _, _). distance) expanded
            in
              (case normalize scores False of
                 Inl e \<Rightarrow> Inl e
               | Inr normalized_scores \<Rightarrow>
                   (case normalize ages False of
                      Inl e \<Rightarrow> Inl e
                    | Inr normalized_ages \<Rightarrow>
                        (case normalize distances True of
                           Inl e \<Rightarrow> Inl e
                         | Inr normalized_distances \<Rightarrow>
                             Inr (sorted_reverse
                                    (map (score_rank query normalized_scores
                                            normalized_distances normalized_ages)
                                       (enumerate 0 expanded)))))))"

subsection \<open>The end-to-end example of the specification\<close>

definition example_item :: "int \<Rightarrow> string \<Rightarrow> int \<Rightarrow> int \<Rightarrow> Item" where
  "example_item i title score t =
     \<lparr>item_id = i, item_time = Some t, item_title = Some title, item_url = None,
      item_text = None, item_score = Some score, item_type = Some Story, item_by = None,
      item_descendants = None\<rparr>"

definition example_store :: store where
  "example_store =
     \<lparr>items =
        [example_item 1 ''Understanding the Rust borrow checker'' 50 100,
         example_item 2 ''A Go tutorial'' 10 50,
         example_item 3 ''Rust async patterns'' 5 10],
      kids = []\<rparr>"

definition example_candidates :: "(int \<times> rat) list" where
  "example_candidates = [(1, 2 / 10), (2, 1 / 10), (3, 9 / 10)]"

definition example_query :: string where
  "example_query = ''rust borrow checker''"


subsection \<open>The fused score as the specification words it\<close>








section \<open>Listing\<close>

definition MAX_NUM :: int where
  "MAX_NUM = 50"

text \<open>The parameters of \<^verbatim>\<open>get_items\<close> after the session, and the defaults of its signature.\<close>

record listing_args =
  arg_item_type :: "ItemType option"
  arg_by :: "string option"
  arg_before_time :: "int option"
  arg_after_time :: "int option"
  arg_min_score :: "int option"
  arg_max_score :: "int option"
  arg_min_comments :: "int option"
  arg_max_comments :: "int option"
  arg_sort_by :: "SortBy option"
  arg_sort_order :: "SortOrder option"
  arg_skip :: int
  arg_limit :: int
  arg_query :: "string option"

definition default_args :: listing_args where
  "default_args =
     \<lparr>arg_item_type = None, arg_by = None, arg_before_time = None, arg_after_time = None,
      arg_min_score = None, arg_max_score = None, arg_min_comments = None,
      arg_max_comments = None, arg_sort_by = None, arg_sort_order = None,
      arg_skip = 0, arg_limit = 10, arg_query = None\<rparr>"

text \<open>
  The query object that \<^verbatim>\<open>get_items\<close> builds: the criteria of its \<^verbatim>\<open>filter\<close>
  calls in the order of the calls, the \<^verbatim>\<open>order_by\<close> if any, the offset and the limit.
  \<^verbatim>\<open>options(noload(Item.kids))\<close> keeps the relationship from being loaded and selects
  the same rows, so it leaves no trace here.
\<close>

record select_items =
  sel_where :: "(Item \<Rightarrow> bool) list"
  sel_order_by :: "(SortBy \<times> SortOrder) option"
  sel_offset :: int
  sel_limit :: int

text \<open>
  A comparison of a column with a bound parameter selects a row when the column is not
  \<^verbatim>\<open>NULL\<close> and the comparison holds. \<^verbatim>\<open>Item.type == item_type\<close> with
  \<^verbatim>\<open>item_type = None\<close> is rendered \<^verbatim>\<open>items.type IS NULL\<close>.
\<close>

definition col_le :: "int option \<Rightarrow> int \<Rightarrow> bool" where
  "col_le col v = (case col of None \<Rightarrow> False | Some x \<Rightarrow> x \<le> v)"

definition col_ge :: "int option \<Rightarrow> int \<Rightarrow> bool" where
  "col_ge col v = (case col of None \<Rightarrow> False | Some x \<Rightarrow> x \<ge> v)"

definition type_is :: "ItemType option \<Rightarrow> Item \<Rightarrow> bool" where
  "type_is wanted i =
     (case wanted of
        None \<Rightarrow> item_type i = None
      | Some t \<Rightarrow> item_type i = Some t)"

text \<open>
  \<^verbatim>\<open>or_(Item.title.contains(query), Item.text.contains(query))\<close>. How the engine
  matches one column against the pattern is the parameter \<open>contains\<close>; a \<^verbatim>\<open>NULL\<close>
  column does not match.
\<close>

definition text_matches :: "(string \<Rightarrow> string \<Rightarrow> bool) \<Rightarrow> string \<Rightarrow> Item \<Rightarrow> bool" where
  "text_matches contains q i =
     ((case item_title i of None \<Rightarrow> False | Some t \<Rightarrow> contains t q)
      \<or> (case item_text i of None \<Rightarrow> False | Some t \<Rightarrow> contains t q))"

definition when_given :: "'a option \<Rightarrow> ('a \<Rightarrow> Item \<Rightarrow> bool) \<Rightarrow> (Item \<Rightarrow> bool) list" where
  "when_given p crit = (case p of None \<Rightarrow> [] | Some v \<Rightarrow> [crit v])"

definition optional_criteria ::
  "(string \<Rightarrow> string \<Rightarrow> bool) \<Rightarrow> listing_args \<Rightarrow> (Item \<Rightarrow> bool) list" where
  "optional_criteria contains a =
     when_given (arg_by a) (\<lambda>v i. item_by i = Some v)
     @ when_given (arg_before_time a) (\<lambda>v i. col_le (item_time i) v)
     @ when_given (arg_after_time a) (\<lambda>v i. col_ge (item_time i) v)
     @ when_given (arg_min_score a) (\<lambda>v i. col_ge (item_score i) v)
     @ when_given (arg_max_score a) (\<lambda>v i. col_le (item_score i) v)
     @ when_given (arg_min_comments a) (\<lambda>v i. col_ge (item_descendants i) v)
     @ when_given (arg_max_comments a) (\<lambda>v i. col_le (item_descendants i) v)
     @ when_given (arg_query a) (text_matches contains)"

definition items_query ::
  "(string \<Rightarrow> string \<Rightarrow> bool) \<Rightarrow> listing_args \<Rightarrow> select_items" where
  "items_query contains a =
     \<lparr>sel_where = type_is (arg_item_type a) # optional_criteria contains a,
      sel_order_by =
        (case arg_sort_by a of
           None \<Rightarrow> None
         | Some col \<Rightarrow>
             (if arg_sort_order a = Some Asc then Some (col, Asc)
              else if arg_sort_order a = Some Desc then Some (col, Desc)
              else None)),
      sel_offset = arg_skip a,
      sel_limit = (if arg_limit a > MAX_NUM then MAX_NUM else arg_limit a)\<rparr>"

text \<open>
  Running the query. The order of rows that compare equal, the place of \<^verbatim>\<open>NULL\<close>
  keys and the reading of a negative offset or limit belong to the engine; the model
  takes a stable sort with \<^verbatim>\<open>NULL\<close> least, a negative offset as 0 and a negative limit
  as no limit (SQLite's reading). The offset is applied, then the limit.
\<close>

definition sort_column :: "SortBy \<Rightarrow> Item \<Rightarrow> int option" where
  "sort_column col = (case col of SortBy_score \<Rightarrow> item_score | SortBy_time \<Rightarrow> item_time)"

definition sql_order_by :: "(SortBy \<times> SortOrder) option \<Rightarrow> Item list \<Rightarrow> Item list" where
  "sql_order_by ob rows =
     (case ob of
        None \<Rightarrow> rows
      | Some (col, Asc) \<Rightarrow> sort_key (sort_column col) rows
      | Some (col, Desc) \<Rightarrow> rev (sort_key (sort_column col) (rev rows)))"

definition sql_offset :: "int \<Rightarrow> 'a list \<Rightarrow> 'a list" where
  "sql_offset k rows = drop (nat k) rows"

definition sql_limit :: "int \<Rightarrow> 'a list \<Rightarrow> 'a list" where
  "sql_limit n rows = (if n < 0 then rows else take (nat n) rows)"

definition ordered_rows :: "store \<Rightarrow> select_items \<Rightarrow> Item list" where
  "ordered_rows db q = sql_order_by (sel_order_by q) (fold filter (sel_where q) (items db))"

definition all_rows :: "store \<Rightarrow> select_items \<Rightarrow> Item list" where
  "all_rows db q = sql_limit (sel_limit q) (sql_offset (sel_offset q) (ordered_rows db q))"

definition get_items ::
  "(string \<Rightarrow> string \<Rightarrow> bool) \<Rightarrow> store \<Rightarrow> listing_args \<Rightarrow> Item list" where
  "get_items contains db a = all_rows db (items_query contains a)"

section \<open>Comment previews\<close>

text \<open>
  \<^verbatim>\<open>SELECT i.* FROM items i JOIN kids k ON i.id = k.kid WHERE k.item = {parent} AND
  i.type = 'comment' ORDER BY k.display_order\<close>: the joined rows, each item with the
  \<^verbatim>\<open>kids\<close> row that links it, in ascending display order.
\<close>

definition kid_comment_rows :: "store \<Rightarrow> int \<Rightarrow> (Item \<times> Kid) list" where
  "kid_comment_rows db parent =
     sort_key (\<lambda>(i, k). kid_display_order k)
       [(i, k). k \<leftarrow> kids db, i \<leftarrow> items db,
          kid_kid k = Some (item_id i) \<and> kid_item k = Some parent \<and> item_type i = Some Comment]"

definition select_kid_comments :: "store \<Rightarrow> int \<Rightarrow> int \<Rightarrow> Item list" where
  "select_kid_comments db parent n = sql_limit n (map fst (kid_comment_rows db parent))"

text \<open>\<^verbatim>\<open>if comment.text:\<close> holds of a string that is neither \<^verbatim>\<open>None\<close> nor empty.\<close>

definition truthy_text :: "string option \<Rightarrow> string option" where
  "truthy_text t = (case t of None \<Rightarrow> None | Some s \<Rightarrow> if s = [] then None else Some s)"

text \<open>
  The loop of \<^verbatim>\<open>get_comments_text\<close> over the fetched comments; \<open>comment_text\<close> is the
  list it appends to. The child is looked up only under \<^verbatim>\<open>if comment.text:\<close>.
\<close>

fun comments_loop :: "store \<Rightarrow> Item list \<Rightarrow> string list \<Rightarrow> string list" where
  "comments_loop db [] comment_text = comment_text"
| "comments_loop db (comment # rest) comment_text =
     (case truthy_text (item_text comment) of
        None \<Rightarrow> comments_loop db rest comment_text
      | Some t \<Rightarrow>
          (case select_kid_comments db (item_id comment) 1 of
             [] \<Rightarrow> comments_loop db rest (comment_text @ [t])
           | child_comment # _ \<Rightarrow>
               (case truthy_text (item_text child_comment) of
                  None \<Rightarrow> comments_loop db rest (comment_text @ [t])
                | Some ct \<Rightarrow> comments_loop db rest ((comment_text @ [t]) @ [ct]))))"

definition get_comments_text :: "store \<Rightarrow> int \<Rightarrow> string list" where
  "get_comments_text db story_id = comments_loop db (select_kid_comments db story_id 10) []"


section \<open>Search\<close>






section \<open>Auxiliary notions of the proofs\<close>





text \<open>
  One engine's matching of a column against \<^verbatim>\<open>contains(query)\<close>: the case-sensitive
  test that the pattern occurs in the column as a contiguous run.
\<close>

fun contains_sub :: "string \<Rightarrow> string \<Rightarrow> bool" where
  "contains_sub [] q = (q = [])"
| "contains_sub (c # t) q = (take (length q) (c # t) = q \<or> contains_sub t q)"

text \<open>A store of 51 stories, more rows than the largest limit.\<close>

definition many_stories :: store where
  "many_stories =
     \<lparr>items = map (\<lambda>n. example_item (int n) ''A story'' 1 0) [0..<51], kids = []\<rparr>"

definition stories_args :: listing_args where
  "stories_args = default_args\<lparr>arg_item_type := Some Story\<rparr>"

text \<open>
  A store with a story, two comments on it in display order, a reply to the first comment
  and a reply whose text is empty to the second.
\<close>

definition thread_item :: "int \<Rightarrow> ItemType \<Rightarrow> string option \<Rightarrow> string option \<Rightarrow> Item" where
  "thread_item i t title txt =
     \<lparr>item_id = i, item_time = Some 0, item_title = title, item_url = None,
      item_text = txt, item_score = Some 1, item_type = Some t, item_by = None,
      item_descendants = None\<rparr>"

definition thread_store :: store where
  "thread_store =
     \<lparr>items =
        [thread_item 1 Story (Some ''A story'') None,
         thread_item 2 Comment None (Some ''second''),
         thread_item 3 Comment None (Some ''first''),
         thread_item 4 Comment None (Some ''reply''),
         thread_item 5 Comment None (Some [])],
      kids =
        [\<lparr>kid_item = Some 1, kid_kid = Some 2, kid_display_order = Some 1\<rparr>,
         \<lparr>kid_item = Some 1, kid_kid = Some 3, kid_display_order = Some 0\<rparr>,
         \<lparr>kid_item = Some 3, kid_kid = Some 4, kid_display_order = Some 0\<rparr>,
         \<lparr>kid_item = Some 2, kid_kid = Some 5, kid_display_order = Some 0\<rparr>]\<rparr>"


section \<open>Normalization\<close>












section \<open>The ranking without indices\<close>













section \<open>The example of the specification\<close>

lemma example_rankings:
  "compute_rankings example_store example_query example_candidates
     = Inr [(23 / 20, 1), (22 / 45, 2), (1 / 10, 3)]"
  by code_simp


text \<open>
  C1, as the specification states it: on the example the ranking would put item 1 first,
  item 3 second and item 2 third. It does not.
\<close>

theorem example_order_counterexample:
  "\<not> (\<exists>out. compute_rankings example_store example_query example_candidates = Inr out
         \<and> map snd out = [1, 3, 2])"
  by (simp add: example_rankings)

text \<open>
  C1, amended: on the example the ranking returns item 1 first (fused score 23/20),
  item 2 second (22/45) and item 3 third (1/10): item 3 has the largest distance, so its
  inverted distance is 0, and its score and age are the least.
\<close>

theorem example_order:
  "\<exists>out. compute_rankings example_store example_query example_candidates = Inr out
         \<and> map snd out = [1, 2, 3] \<and> map fst out = [23 / 20, 22 / 45, 1 / 10]"
  by (simp add: example_rankings)

section \<open>The order of the ranking\<close>

text \<open>
  C3. With no candidate, and whenever no candidate survives the first loop, the ranking
  raises \<^verbatim>\<open>ValueError\<close> where the specification asks for an empty result.
\<close>

theorem empty_candidates_raise:
  "compute_rankings db query [] = Inl ValueError"
  by (simp add: compute_rankings_def)

lemma no_survivor_raises:
  assumes "expand db results = Inr []"
  shows "compute_rankings db query results = Inl ValueError"
  using assms by (simp add: compute_rankings_def)





section \<open>Listing requests\<close>

lemma limit_eq: "sel_limit (items_query contains a) = min (arg_limit a) MAX_NUM"
  by (simp add: items_query_def min_def)

text \<open>
  C6. The limit of the query that \<^verbatim>\<open>get_items\<close> runs is the smaller of the requested
  limit and 50, so it never exceeds 50, and it is the limit the rows are cut with; the
  default of the signature is 10.
\<close>

theorem limit_clamped:
  "sel_limit (items_query contains a) = min (arg_limit a) 50
   \<and> sel_limit (items_query contains a) \<le> 50
   \<and> get_items contains db a
       = sql_limit (min (arg_limit a) 50)
           (sql_offset (arg_skip a) (ordered_rows db (items_query contains a)))
   \<and> arg_limit default_args = 10
   \<and> sel_limit (items_query contains default_args) = 10"
  by (simp add: get_items_def all_rows_def items_query_def MAX_NUM_def default_args_def min_def)

lemma listing_length:
  assumes "0 \<le> arg_limit a"
  shows "length (get_items contains db a) \<le> 50"
proof -
  let ?n = "sel_limit (items_query contains a)"
  have n: "0 \<le> ?n" "?n \<le> 50"
    using assms by (simp_all add: items_query_def MAX_NUM_def)
  have "length (get_items contains db a) \<le> nat ?n"
    using n(1) by (simp add: get_items_def all_rows_def sql_limit_def)
  also have "\<dots> \<le> 50" using n(2) by simp
  finally show ?thesis .
qed

lemma ordered_rows_skip_limit:
  "ordered_rows db (items_query contains (a\<lparr>arg_skip := k, arg_limit := n\<rparr>))
     = ordered_rows db (items_query contains a)"
  by (simp add: ordered_rows_def items_query_def optional_criteria_def split: option.splits)

text \<open>
  C9, amended: for a non-negative skip \<open>k\<close> and limit \<open>n\<close>, the listing is the first
  \<open>min n 50\<close> rows, starting at offset \<open>k\<close>, of the ordered rows of the same filters and
  sort key, which do not depend on skip and limit: the offset is applied before the limit,
  and the limit is the clamped one.
\<close>

theorem offset_then_limit:
  assumes "0 \<le> k" "0 \<le> n"
  shows "get_items contains db (a\<lparr>arg_skip := k, arg_limit := n\<rparr>)
       = take (nat (min n 50)) (drop (nat k) (ordered_rows db (items_query contains a)))"
proof -
  have "get_items contains db (a\<lparr>arg_skip := k, arg_limit := n\<rparr>)
      = sql_limit (min n 50) (sql_offset k (ordered_rows db (items_query contains a)))"
    unfolding get_items_def all_rows_def ordered_rows_skip_limit
    by (simp add: items_query_def MAX_NUM_def min_def)
  moreover have "\<not> min n 50 < 0" using assms by simp
  ultimately show ?thesis
    by (simp add: sql_limit_def sql_offset_def)
qed

lemma many_length:
  "length (get_items contains_sub many_stories (stories_args\<lparr>arg_skip := 0, arg_limit := 51\<rparr>)) = 50"
  "length (ordered_rows many_stories (items_query contains_sub stories_args)) = 51"
  by code_simp+

text \<open>
  C9, as the specification states it, with the first \<open>n\<close> rows for every \<open>n\<close>: on 51
  stories a request with limit 51 returns 50 rows.
\<close>

theorem offset_then_limit_counterexample:
  "get_items contains_sub many_stories (stories_args\<lparr>arg_skip := 0, arg_limit := 51\<rparr>)
     \<noteq> take (nat 51) (drop (nat 0) (ordered_rows many_stories (items_query contains_sub stories_args)))"
proof
  assume "get_items contains_sub many_stories (stories_args\<lparr>arg_skip := 0, arg_limit := 51\<rparr>)
     = take (nat 51) (drop (nat 0) (ordered_rows many_stories (items_query contains_sub stories_args)))"
  then have "length (get_items contains_sub many_stories (stories_args\<lparr>arg_skip := 0, arg_limit := 51\<rparr>))
     = length (take (nat 51) (drop (nat 0) (ordered_rows many_stories (items_query contains_sub stories_args))))"
    by simp
  then show False by (simp add: many_length)
qed

lemma example_page:
  "map item_id (get_items contains_sub example_store (stories_args\<lparr>arg_skip := 1, arg_limit := 1\<rparr>)) = [2]"
  "map item_id (ordered_rows example_store (items_query contains_sub stories_args)) = [1, 2, 3]"
  by code_simp+

theorem offset_then_limit_witness:
  "(0::int) \<le> 1
   \<and> get_items contains_sub example_store (stories_args\<lparr>arg_skip := 1, arg_limit := 1\<rparr>)
       = take 1 (drop 1 (ordered_rows example_store (items_query contains_sub stories_args)))
   \<and> map item_id (get_items contains_sub example_store (stories_args\<lparr>arg_skip := 1, arg_limit := 1\<rparr>)) = [2]
   \<and> map item_id (ordered_rows example_store (items_query contains_sub stories_args)) = [1, 2, 3]"
  using offset_then_limit [of 1 1 contains_sub example_store stories_args] example_page
  by simp

text \<open>
  C2. With the kind absent the query keeps the rows whose type is \<^verbatim>\<open>NULL\<close>: on a
  store of three stories the listing with all defaults is empty, where the same listing
  with kind \<^verbatim>\<open>story\<close> returns the three.
\<close>

theorem absent_kind_example:
  "get_items contains_sub example_store default_args = []
   \<and> map item_id (get_items contains_sub example_store stories_args) = [1, 2, 3]
   \<and> map item_type (items example_store) = [Some Story, Some Story, Some Story]"
  by code_simp

section \<open>The comment preview\<close>

lemma set_fold_filter: "set (fold filter ps xs) = {x \<in> set xs. list_all (\<lambda>p. p x) ps}"
proof (induction ps arbitrary: xs)
  case Nil
  show ?case by simp
next
  case (Cons p ps)
  show ?case by (simp add: Cons.IH)
qed

lemma set_sql_order_by: "set (sql_order_by ob rows) = set rows"
proof (cases ob)
  case None
  then show ?thesis by (simp add: sql_order_by_def)
next
  case (Some cd)
  obtain col d where "cd = (col, d)" by (cases cd)
  with Some show ?thesis by (cases d) (simp_all add: sql_order_by_def)
qed

lemma set_sql_limit: "set (sql_limit n rows) \<subseteq> set rows"
  by (auto simp: sql_limit_def dest: in_set_takeD)

lemma set_sql_offset: "set (sql_offset k rows) \<subseteq> set rows"
  by (auto simp: sql_offset_def dest: in_set_dropD)

lemma set_ordered_rows:
  "set (ordered_rows db (items_query contains a))
     = {i \<in> set (items db). type_is (arg_item_type a) i
          \<and> list_all (\<lambda>p. p i) (optional_criteria contains a)}"
proof -
  have "sel_where (items_query contains a)
      = type_is (arg_item_type a) # optional_criteria contains a"
    by (simp add: items_query_def)
  then show ?thesis
    by (simp add: ordered_rows_def set_sql_order_by set_fold_filter)
qed

lemma absent_kind_only_null:
  assumes "arg_item_type a = None" "i \<in> set (get_items contains db a)"
  shows "item_type i = None"
proof -
  let ?rows = "ordered_rows db (items_query contains a)"
  have "i \<in> set (sql_limit (sel_limit (items_query contains a))
                  (sql_offset (sel_offset (items_query contains a)) ?rows))"
    using assms(2) by (simp add: get_items_def all_rows_def)
  then have "i \<in> set (sql_offset (sel_offset (items_query contains a)) ?rows)"
    using set_sql_limit by (rule rev_subsetD)
  then have "i \<in> set ?rows"
    using set_sql_offset by (rule rev_subsetD)
  with assms(1) show ?thesis
    by (simp add: set_ordered_rows type_is_def)
qed








lemma thread_preview:
  "get_comments_text thread_store 1 = [''first'', ''reply'', ''second'']"
  by code_simp

section \<open>Search results\<close>














end
